theory Spec2Isabelle
  imports Main "HOL-Library.AList"
begin

section \<open>Strings and the cookie-name encoding of \<open>pickCookies\<close>\<close>

text \<open>
  JavaScript strings are modelled by HOL strings, one \<open>char\<close> per code unit; the
  code units covered are those below 256, so a string never holds a surrogate and
  \<open>encodeURIComponent\<close> never raises. A code unit below 128 is one UTF-8 octet, one
  between 128 and 255 is two.
\<close>

definition hexdigit :: "nat \<Rightarrow> char" where
  "hexdigit n = ''0123456789ABCDEF'' ! (n mod 16)"

definition pct :: "nat \<Rightarrow> string" where
  "pct b = [CHR ''%'', hexdigit (b div 16), hexdigit (b mod 16)]"

definition utf8_octets :: "nat \<Rightarrow> nat list" where
  "utf8_octets cp = (if cp < 128 then [cp] else [192 + cp div 64, 128 + cp mod 64])"

text \<open>The characters \<open>encodeURIComponent\<close> leaves alone: letters, digits and \<open>- _ . ! ~ * ' ( )\<close>.\<close>

definition uri_unreserved :: "char \<Rightarrow> bool" where
  "uri_unreserved c =
     (c \<in> set ''ABCDEFGHIJKLMNOPQRSTUVWXYZabcdefghijklmnopqrstuvwxyz0123456789-_.!~*()''
      \<or> c = CHR 0x27)"

definition encode_char :: "char \<Rightarrow> string" where
  "encode_char c = (if uri_unreserved c then [c] else concat (map pct (utf8_octets (of_char c))))"

definition encodeURIComponent :: "string \<Rightarrow> string" where
  "encodeURIComponent s = concat (map encode_char s)"

definition hexval :: "char \<Rightarrow> nat" where
  "hexval c = (let n = of_char c in
     if 48 \<le> n \<and> n \<le> 57 then n - 48
     else if 65 \<le> n \<and> n \<le> 70 then n - 55
     else if 97 \<le> n \<and> n \<le> 102 then n - 87 else 0)"

text \<open>\<open>decodeURIComponent\<close> on one matched escape \<open>%XY\<close> of an octet below 128.\<close>

definition decode_escape :: "char \<Rightarrow> char \<Rightarrow> char" where
  "decode_escape x y = char_of (16 * hexval x + hexval y)"

text \<open>
  \<open>s.replace(/%(...)/g, decodeURIComponent)\<close> for a regular expression that matches
  \<open>%\<close> followed by one of the listed two-digit codes: the scan goes left to right, a
  match is replaced by the decoded character and the scan resumes after it.
\<close>

fun replace_escapes :: "string list \<Rightarrow> string \<Rightarrow> string" where
  "replace_escapes wl (a # x # y # rest) =
     (if a = CHR ''%'' \<and> [x, y] \<in> set wl
      then decode_escape x y # replace_escapes wl rest
      else a # replace_escapes wl (x # y # rest))"
| "replace_escapes wl s = s"

text \<open>The alternatives of the source's expression \<open>/%(2[346B]|5E|60|7C)/g\<close>.\<close>

definition name_escapes :: "string list" where
  "name_escapes = [''23'', ''24'', ''26'', ''2B'', ''5E'', ''60'', ''7C'']"

text \<open>\<open>s.replace(/[()]/g, escape)\<close>: \<open>escape\<close> gives \<open>%28\<close> and \<open>%29\<close>.\<close>

definition escape_parens :: "string \<Rightarrow> string" where
  "escape_parens s =
     concat (map (\<lambda>c. if c = CHR ''('' then ''%28'' else if c = CHR '')'' then ''%29'' else [c]) s)"

definition encodedKey :: "string \<Rightarrow> string" where
  "encodedKey key = escape_parens (replace_escapes name_escapes (encodeURIComponent key))"




section \<open>Values and plain objects\<close>

text \<open>
  A JavaScript value. A plain object is the list of its own enumerable properties in
  enumeration order; its prototype is \<open>Object.prototype\<close>. (A new property goes to the
  end of the list; that JavaScript enumerates integer-like names first plays no part in
  what follows.) \<open>Fn name\<close> is the built-in
  function that \<open>Object.prototype\<close> holds under \<open>name\<close>, \<open>ObjectPrototype\<close> is that
  object itself: both are only ever obtained by reading an inherited property.
  Numbers are integers and \<open>NaN\<close>; the code only compares them.
\<close>

datatype jsval =
    Undefined
  | Null
  | Bool bool
  | Num int
  | NaN
  | Str string
  | Arr "jsval list"
  | Obj "(string \<times> jsval) list"
  | Fn string
  | ObjectPrototype

type_synonym props = "(string \<times> jsval) list"

fun typeof :: "jsval \<Rightarrow> string" where
  "typeof Undefined = ''undefined''"
| "typeof Null = ''object''"
| "typeof (Bool b) = ''boolean''"
| "typeof (Num n) = ''number''"
| "typeof NaN = ''number''"
| "typeof (Str s) = ''string''"
| "typeof (Arr xs) = ''object''"
| "typeof (Obj ps) = ''object''"
| "typeof (Fn f) = ''function''"
| "typeof ObjectPrototype = ''object''"

text \<open>
  \<open>a === b\<close>, for the operands the write path gives it: neither is of type
  \<open>object\<close>, so identity of objects plays no part; \<open>NaN\<close> equals nothing.
\<close>

definition strict_eq :: "jsval \<Rightarrow> jsval \<Rightarrow> bool" where
  "strict_eq a b = (a = b \<and> a \<noteq> NaN)"

text \<open>The function-valued properties of \<open>Object.prototype\<close>; \<open>__proto__\<close> is its accessor.\<close>

definition object_prototype_functions :: "string list" where
  "object_prototype_functions =
     [''constructor'', ''__defineGetter__'', ''__defineSetter__'', ''hasOwnProperty'',
      ''__lookupGetter__'', ''__lookupSetter__'', ''isPrototypeOf'', ''propertyIsEnumerable'',
      ''toString'', ''valueOf'', ''toLocaleString'']"

text \<open>\<open>key in obj\<close>: own properties, then the prototype.\<close>

definition has_property :: "props \<Rightarrow> string \<Rightarrow> bool" where
  "has_property obj key =
     (key \<in> set (map fst obj) \<or> key \<in> set object_prototype_functions \<or> key = ''__proto__'')"

text \<open>\<open>obj[key]\<close>: the own property, else what the prototype gives, else \<open>undefined\<close>.\<close>

definition get_property :: "props \<Rightarrow> string \<Rightarrow> jsval" where
  "get_property obj key =
     (case map_of obj key of
        Some v \<Rightarrow> v
      | None \<Rightarrow>
          if key \<in> set object_prototype_functions then Fn key
          else if key = ''__proto__'' then ObjectPrototype
          else Undefined)"

text \<open>
  \<open>obj[key] = v\<close>: an own property is overwritten in place, a new one is appended. The
  one exception is \<open>__proto__\<close> on an object without such an own property: the
  assignment reaches the accessor of \<open>Object.prototype\<close>, which creates no property.
  (Given an object or \<open>null\<close> the accessor replaces the prototype; the embedding keeps
  own properties only and does not follow an object past that point.)
\<close>

definition set_property :: "props \<Rightarrow> string \<Rightarrow> jsval \<Rightarrow> props" where
  "set_property obj key v =
     (if key = ''__proto__'' \<and> key \<notin> set (map fst obj) then obj
      else AList.update key v obj)"

text \<open>
  Defining properties, as an object literal, a spread and \<open>Object.fromEntries\<close> do:
  each entry in turn overwrites the property of its name or is appended.
  \<open>{...a, ...b}\<close> is \<open>assign_all (assign_all [] a) b\<close>.
\<close>

definition assign_all :: "props \<Rightarrow> props \<Rightarrow> props" where
  "assign_all target src = fold (\<lambda>(k, v) obj. AList.update k v obj) src target"

definition fromEntries :: "props \<Rightarrow> props" where
  "fromEntries es = assign_all [] es"

section \<open>The schema contract\<close>

text \<open>
  The result of \<open>schema['~standard'].validate\<close>: a promise, a success with its value, a
  failure with its issues, or a value with neither a \<open>value\<close> nor an \<open>issues\<close> member.
  The value of a success is taken to be a plain object, as the source's casts to
  \<open>Record<string, unknown>\<close> take it. An entry of an issue's path is a property key or a
  path segment object holding one.
\<close>

datatype property_key = KStr string | KNum int | KSym nat

datatype path_item = Key property_key | Segment property_key

record issue =
  message :: string
  path :: "path_item list option"

datatype vresult = Pending | Success props | Failure "issue list" | Neither

type_synonym encoder = "jsval \<Rightarrow> jsval option"

text \<open>The parts of a Zod field that \<open>extractZodCodecEncoder\<close> looks at; an encoder that
  raises returns \<open>None\<close>, a \<open>reverseTransform\<close> that is no function is \<open>None\<close>.\<close>

record zod_inner_def =
  inner_type :: "string option"
  inner_reverseTransform :: "encoder option"

record zod_inner =
  inner_def :: "zod_inner_def option"

record zod_def =
  def_type :: "string option"
  def_innerType :: "zod_inner option"
  def_reverseTransform :: "encoder option"

record field_schema =
  def :: "zod_def option"

record schema =
  std_validate :: "props \<Rightarrow> vresult"
  shape :: "(string \<times> field_schema) list option"

record schema_info =
  keys :: "string list"
  codecEncoders :: "(string \<times> encoder) list"

definition extractZodCodecEncoder :: "field_schema \<Rightarrow> encoder option" where
  "extractZodCodecEncoder fieldSchema =
     (case def fieldSchema of
        None \<Rightarrow> None
      | Some d \<Rightarrow>
          if def_type d = Some ''pipe'' \<and> def_reverseTransform d \<noteq> None
          then def_reverseTransform d
          else (case def_innerType d of
                  None \<Rightarrow> None
                | Some inner \<Rightarrow>
                    (case inner_def inner of
                       None \<Rightarrow> None
                     | Some idef \<Rightarrow>
                         if def_type d = Some ''default'' \<and> inner_type idef = Some ''pipe''
                            \<and> inner_reverseTransform idef \<noteq> None
                         then inner_reverseTransform idef
                         else None)))"

definition extractSchemaInfo :: "schema \<Rightarrow> schema_info" where
  "extractSchemaInfo sch =
     (case std_validate sch [] of
        Success defaultValues \<Rightarrow>
          \<lparr> keys = map fst defaultValues,
            codecEncoders =
              (case shape sch of
                 None \<Rightarrow> []
               | Some sh \<Rightarrow>
                   fold (\<lambda>(key, fieldSchema) m.
                           case extractZodCodecEncoder fieldSchema of
                             Some enc \<Rightarrow> AList.update key enc m
                           | None \<Rightarrow> m) sh []) \<rparr>
      | _ \<Rightarrow> \<lparr> keys = [], codecEncoders = [] \<rparr>)"

section \<open>The server side: \<open>getCachedKeys\<close> and \<open>pickCookies\<close>\<close>

text \<open>
  \<open>schemaKeysCache\<close> is a WeakMap keyed by the identity of the schema object. A schema
  object is a reference into a table of schemas that never changes; the cache maps
  references to key lists, and \<open>getCachedKeys\<close> returns the keys with the cache as it
  leaves it.
\<close>

type_synonym schema_ref = nat

definition getCachedKeys ::
  "(schema_ref \<Rightarrow> schema) \<Rightarrow> (schema_ref \<rightharpoonup> string list) \<Rightarrow> schema_ref
     \<Rightarrow> string list \<times> (schema_ref \<rightharpoonup> string list)" where
  "getCachedKeys schemas schemaKeysCache r =
     (case schemaKeysCache r of
        Some ks \<Rightarrow> (ks, schemaKeysCache)
      | None \<Rightarrow>
          (let result = std_validate (schemas r) [];
               ks = (case result of Success v \<Rightarrow> map fst v | _ \<Rightarrow> [])
           in (ks, schemaKeysCache(r \<mapsto> ks))))"

text \<open>The caches that calls of \<open>getCachedKeys\<close> lead to from the empty one.\<close>

inductive reachable_cache ::
  "(schema_ref \<Rightarrow> schema) \<Rightarrow> (schema_ref \<rightharpoonup> string list) \<Rightarrow> bool"
  for schemas :: "schema_ref \<Rightarrow> schema" where
  initial: "reachable_cache schemas Map.empty"
| call: "reachable_cache schemas c \<Longrightarrow> reachable_cache schemas (snd (getCachedKeys schemas c r))"

text \<open>
  The loop body of \<open>pickCookies\<close>. \<open>jar_get\<close> is \<open>cookies.get\<close> (\<open>None\<close> for
  \<open>undefined\<close>), \<open>JSON_parse\<close> is \<open>JSON.parse\<close> (\<open>None\<close> where it raises a SyntaxError).
\<close>

definition pick_step ::
  "(string \<Rightarrow> 'a \<Rightarrow> string option) \<Rightarrow> (string \<Rightarrow> jsval option) \<Rightarrow> 'a
     \<Rightarrow> string \<Rightarrow> props \<Rightarrow> props" where
  "pick_step jar_get JSON_parse opts key picked =
     (case jar_get (encodedKey key) opts of
        None \<Rightarrow> picked
      | Some raw \<Rightarrow>
          (case JSON_parse raw of
             Some parsed \<Rightarrow> set_property picked key parsed
           | None \<Rightarrow> picked))"

definition pickCookies ::
  "(string \<Rightarrow> 'a \<Rightarrow> string option) \<Rightarrow> (string \<Rightarrow> jsval option)
     \<Rightarrow> (schema_ref \<Rightarrow> schema) \<Rightarrow> (schema_ref \<rightharpoonup> string list) \<Rightarrow> schema_ref \<Rightarrow> 'a
     \<Rightarrow> props \<times> (schema_ref \<rightharpoonup> string list)" where
  "pickCookies jar_get JSON_parse schemas schemaKeysCache r opts =
     (let (ks, cache') = getCachedKeys schemas schemaKeysCache r
      in (fold (pick_step jar_get JSON_parse opts) ks [], cache'))"

text \<open>What the loop assigns for a key, if anything: the parsed string that the jar holds
  under the encoded name.\<close>

definition picked_value ::
  "(string \<Rightarrow> 'a \<Rightarrow> string option) \<Rightarrow> (string \<Rightarrow> jsval option) \<Rightarrow> 'a \<Rightarrow> string \<Rightarrow> jsval option" where
  "picked_value jar_get JSON_parse opts key =
     (case jar_get (encodedKey key) opts of None \<Rightarrow> None | Some raw \<Rightarrow> JSON_parse raw)"

section \<open>The client side: the class \<open>Cookies\<close>\<close>

text \<open>
  The private fields of the class, and with them what its calls leave outside it:
  \<open>jar\<close> is the list of the calls \<open>jsCookie.set(name, value, attributes)\<close> so far, oldest
  first, and \<open>assignments\<close> counts the assignments to the reactive \<open>$state\<close> cache, each of
  which is what notifies the rendering layer. \<open>'o\<close> is the type of cookie attributes.
\<close>

record 'o store =
  schema :: schema
  schemaShape :: props
  encoders :: "(string \<times> encoder) list"
  cookies :: props
  jar :: "(string \<times> jsval \<times> 'o option) list"
  assignments :: nat

datatype error = AsyncValidation

definition new_Cookies :: "schema \<Rightarrow> props \<Rightarrow> 'o store" where
  "new_Cookies sch initial =
     (let schemaInfo = extractSchemaInfo sch
      in \<lparr> schema = sch,
           schemaShape = fold (\<lambda>key acc. set_property acc key (Bool True)) (keys schemaInfo) [],
           encoders = codecEncoders schemaInfo,
           cookies = initial,
           jar = [],
           assignments = 0 \<rparr>)"

definition validate :: "'o store \<Rightarrow> props \<Rightarrow> vresult" where
  "validate st v = std_validate (schema st) v"

definition has :: "'o store \<Rightarrow> string \<Rightarrow> bool" where
  "has st key = has_property (schemaShape st) key"

text \<open>\<open>result.issues?.some((issue) => issue.path?.includes(k))\<close>: \<open>includes\<close> finds the
  string \<open>k\<close> among the entries of the path, at any depth. In \<open>#getTypedValue\<close>, the test
  \<open>typeof defaultValues === 'object' && defaultValues !== null\<close> holds of every plain
  object and has no branch of its own.\<close>

definition referenced :: "issue list \<Rightarrow> string \<Rightarrow> bool" where
  "referenced issues k =
     list_ex (\<lambda>i. case path i of None \<Rightarrow> False | Some p \<Rightarrow> Key (KStr k) \<in> set p) issues"

definition getTypedValue :: "'o store \<Rightarrow> string \<Rightarrow> error + jsval" where
  "getTypedValue st key =
     (let paramsObject = cookies st;
          result = validate st paramsObject
      in case result of
           Pending \<Rightarrow> Inl AsyncValidation
         | Success v \<Rightarrow> Inr (get_property v key)
         | Failure issues \<Rightarrow>
             (let emptyResult = validate st [];
                  defaultValues = (case emptyResult of Success d \<Rightarrow> d | _ \<Rightarrow> []);
                  validParams =
                    fromEntries (filter (\<lambda>(k, _). \<not> referenced issues k) paramsObject)
              in Inr (get_property (assign_all (assign_all [] defaultValues) validParams) key))
         | Neither \<Rightarrow> Inr Undefined)"

definition get :: "'o store \<Rightarrow> string \<Rightarrow> error + jsval" where
  "get st key = getTypedValue st key"

text \<open>
  The write path. \<open>dequal\<close> is the function of that name from \<open>dequal/lite\<close> and
  \<open>JSON_stringify\<close> is \<open>JSON.stringify\<close>; both are parameters. The local variables of
  \<open>#setValue\<close> are definitions of their own.
\<close>

definition isPrimitive :: "jsval \<Rightarrow> jsval \<Rightarrow> bool" where
  "isPrimitive currentValue val =
     (typeof currentValue \<noteq> ''object'' \<and> typeof val \<noteq> ''object''
      \<and> currentValue \<noteq> Null \<and> val \<noteq> Null)"

text \<open>The condition of the second \<open>return\<close>: \<open>isPrimitive ? currentValue === value :
  dequal(currentValue, value)\<close>, with \<open>currentValue = paramsObject[key]\<close>.\<close>

definition same_value :: "(jsval \<Rightarrow> jsval \<Rightarrow> bool) \<Rightarrow> 'o store \<Rightarrow> string \<Rightarrow> jsval \<Rightarrow> bool" where
  "same_value dequal st key val =
     (let currentValue = get_property (cookies st) key
      in if isPrimitive currentValue val then strict_eq currentValue val
         else dequal currentValue val)"

definition valueForValidation :: "'o store \<Rightarrow> string \<Rightarrow> jsval \<Rightarrow> jsval" where
  "valueForValidation st key val =
     (case map_of (encoders st) key of
        None \<Rightarrow> val
      | Some enc \<Rightarrow> (case enc val of Some e \<Rightarrow> e | None \<Rightarrow> val))"

definition newParamsObject :: "'o store \<Rightarrow> string \<Rightarrow> jsval \<Rightarrow> props" where
  "newParamsObject st key val =
     AList.update key (valueForValidation st key val) (assign_all [] (cookies st))"

definition setValue ::
  "(jsval \<Rightarrow> jsval \<Rightarrow> bool) \<Rightarrow> (jsval \<Rightarrow> jsval) \<Rightarrow> string \<Rightarrow> jsval \<Rightarrow> 'o option
     \<Rightarrow> 'o store \<Rightarrow> 'o store" where
  "setValue dequal JSON_stringify key val options st =
     (if \<not> has st key then st
      else if same_value dequal st key val then st
      else
        case validate st (newParamsObject st key val) of
          Success validatedResult \<Rightarrow>
            st \<lparr> jar := jar st @ [(key, JSON_stringify val, options)],
                 cookies := set_property (cookies st) key (get_property validatedResult key),
                 assignments := Suc (assignments st) \<rparr>
        | _ \<Rightarrow> st)"

definition set_cookie ::
  "(jsval \<Rightarrow> jsval \<Rightarrow> bool) \<Rightarrow> (jsval \<Rightarrow> jsval) \<Rightarrow> string \<Rightarrow> jsval \<Rightarrow> 'o store \<Rightarrow> 'o store" where
  "set_cookie dequal JSON_stringify key val st = setValue dequal JSON_stringify key val None st"

definition update ::
  "(jsval \<Rightarrow> jsval \<Rightarrow> bool) \<Rightarrow> (jsval \<Rightarrow> jsval) \<Rightarrow> string \<Rightarrow> jsval \<Rightarrow> 'o option
     \<Rightarrow> 'o store \<Rightarrow> 'o store" where
  "update dequal JSON_stringify key val options st = setValue dequal JSON_stringify key val options st"

section \<open>The facade of \<open>useCookies\<close>\<close>

text \<open>
  A property name is a string or a symbol. Reading a property of the proxy gives the
  function that forwards its arguments to \<open>target.update\<close>, or what \<open>get\<close> returns (or
  raises), or falls through to \<open>Reflect.get\<close>; writing one calls \<open>set\<close> or falls through
  to \<open>Reflect.set\<close>.
\<close>

datatype prop_name = PString string | PSymbol nat

datatype 'o read_result =
    UpdateFunction "string \<Rightarrow> jsval \<Rightarrow> 'o option \<Rightarrow> 'o store"
  | Got "error + jsval"
  | ReflectGet prop_name

datatype 'o write_result = SetCalled "'o store" | ReflectSet prop_name jsval

definition handler_get ::
  "(jsval \<Rightarrow> jsval \<Rightarrow> bool) \<Rightarrow> (jsval \<Rightarrow> jsval) \<Rightarrow> 'o store \<Rightarrow> prop_name \<Rightarrow> 'o read_result" where
  "handler_get dequal JSON_stringify target prop =
     (if prop = PString ''update''
      then UpdateFunction (\<lambda>key val options. update dequal JSON_stringify key val options target)
      else case prop of
             PString p \<Rightarrow> if has target p then Got (get target p) else ReflectGet prop
           | PSymbol _ \<Rightarrow> ReflectGet prop)"

definition handler_set ::
  "(jsval \<Rightarrow> jsval \<Rightarrow> bool) \<Rightarrow> (jsval \<Rightarrow> jsval) \<Rightarrow> 'o store \<Rightarrow> prop_name \<Rightarrow> jsval
     \<Rightarrow> 'o write_result" where
  "handler_set dequal JSON_stringify target prop val =
     (case prop of
        PString p \<Rightarrow>
          if has target p then SetCalled (set_cookie dequal JSON_stringify p val target)
          else ReflectSet prop val
      | PSymbol _ \<Rightarrow> ReflectSet prop val)"

definition useCookies :: "schema \<Rightarrow> props \<Rightarrow> 'o store" where
  "useCookies sch initial = new_Cookies sch initial"

section \<open>Sample schemas and library functions\<close>

text \<open>
  The schema of the specification's scenario, \<open>state: boolean, default true\<close>, as Zod
  builds it: unknown keys of the candidate are dropped, a missing \<open>state\<close> gets the default.
\<close>

definition state_validate :: "props \<Rightarrow> vresult" where
  "state_validate c =
     (case get_property c ''state'' of
        Undefined \<Rightarrow> Success [(''state'', Bool True)]
      | Bool b \<Rightarrow> Success [(''state'', Bool b)]
      | _ \<Rightarrow> Failure [\<lparr> message = ''Invalid input: expected boolean'',
                         path = Some [Key (KStr ''state'')] \<rparr>])"

definition state_schema :: schema where
  "state_schema =
     \<lparr> std_validate = state_validate,
       shape = Some [(''state'',
         \<lparr> def = Some \<lparr> def_type = Some ''default'',
                         def_innerType = Some \<lparr> inner_def =
                           Some \<lparr> inner_type = Some ''boolean'', inner_reverseTransform = None \<rparr> \<rparr>,
                         def_reverseTransform = None \<rparr> \<rparr>)] \<rparr>"





text \<open>One field \<open>n\<close>, a number with default 0 that the schema transforms: a negative
  number becomes 0.\<close>

definition clamp_validate :: "props \<Rightarrow> vresult" where
  "clamp_validate c =
     (case get_property c ''n'' of
        Undefined \<Rightarrow> Success [(''n'', Num 0)]
      | Num n \<Rightarrow> Success [(''n'', Num (if n < 0 then 0 else n))]
      | _ \<Rightarrow> Failure [\<lparr> message = ''Invalid input: expected number'',
                         path = Some [Key (KStr ''n'')] \<rparr>])"

definition clamp_schema :: schema where
  "clamp_schema = \<lparr> std_validate = clamp_validate, shape = None \<rparr>"

text \<open>A schema that answers the empty candidate at once, with the default of its field
  \<open>state\<close>, and every other candidate with a promise.\<close>

definition async_validate :: "props \<Rightarrow> vresult" where
  "async_validate c = (if c = [] then Success [(''state'', Bool True)] else Pending)"

definition async_schema :: schema where
  "async_schema = \<lparr> std_validate = async_validate, shape = None \<rparr>"

text \<open>A schema with one field named \<open>update\<close>, a boolean with default false.\<close>

definition update_validate :: "props \<Rightarrow> vresult" where
  "update_validate c =
     (case get_property c ''update'' of
        Undefined \<Rightarrow> Success [(''update'', Bool False)]
      | Bool b \<Rightarrow> Success [(''update'', Bool b)]
      | _ \<Rightarrow> Failure [\<lparr> message = ''Invalid input: expected boolean'',
                         path = Some [Key (KStr ''update'')] \<rparr>])"

definition update_schema :: schema where
  "update_schema = \<lparr> std_validate = update_validate, shape = None \<rparr>"

text \<open>A schema whose defaults hold an own property named \<open>__proto__\<close>.\<close>

definition proto_schema :: schema where
  "proto_schema = \<lparr> std_validate = (\<lambda>c. Success [(''__proto__'', Num 0)]), shape = None \<rparr>"

text \<open>Stand-ins for the library functions where a concrete one is needed: equality of
  values for \<open>dequal\<close>, and \<open>JSON.stringify\<close> and \<open>JSON.parse\<close> on booleans, numbers of
  one digit and strings without special characters.\<close>

definition sample_dequal :: "jsval \<Rightarrow> jsval \<Rightarrow> bool" where
  "sample_dequal a b = (a = b)"

definition sample_stringify :: "jsval \<Rightarrow> jsval" where
  "sample_stringify v =
     (case v of
        Bool b \<Rightarrow> Str (if b then ''true'' else ''false'')
      | Num n \<Rightarrow> Str ((if n < 0 then ''-'' else []) @ [''0123456789'' ! (nat \<bar>n\<bar> mod 10)])
      | Str s \<Rightarrow> Str (CHR 0x22 # s @ [CHR 0x22])
      | Undefined \<Rightarrow> Undefined
      | Fn f \<Rightarrow> Undefined
      | _ \<Rightarrow> Str ''null'')"

definition sample_parse :: "string \<Rightarrow> jsval option" where
  "sample_parse raw =
     (if raw = ''true'' then Some (Bool True)
      else if raw = ''false'' then Some (Bool False)
      else if raw = ''0'' then Some (Num 0)
      else if raw = ''1'' then Some (Num 1)
      else None)"

section \<open>Unfolding the definitions\<close>

lemmas store_simps = new_Cookies_def extractSchemaInfo_def has_def has_property_def
  get_property_def set_property_def validate_def same_value_def isPrimitive_def strict_eq_def
  valueForValidation_def newParamsObject_def assign_all_def object_prototype_functions_def
  setValue_def set_cookie_def update_def

lemmas sample_simps = state_schema_def state_validate_def clamp_schema_def clamp_validate_def
  async_schema_def async_validate_def update_schema_def update_validate_def
  extractZodCodecEncoder_def sample_dequal_def

section \<open>The cookie-name encoding\<close>















lemma unreserved_ascii: "uri_unreserved c \<Longrightarrow> (of_char c :: nat) < 128"
  by (auto simp: uri_unreserved_def)










section \<open>The read path\<close>








section \<open>The keys of a schema\<close>

lemma keys_extractSchemaInfo:
  "keys (extractSchemaInfo sch) = (case std_validate sch [] of Success v \<Rightarrow> map fst v | _ \<Rightarrow> [])"
  by (simp add: extractSchemaInfo_def split: vresult.splits)

lemma reachable_cache_holds_keys:
  "reachable_cache schemas c \<Longrightarrow> c r = Some ks \<Longrightarrow> ks = keys (extractSchemaInfo (schemas r))"
proof (induction arbitrary: r ks rule: reachable_cache.induct)
  case initial
  then show ?case by simp
next
  case (call c r')
  then show ?case
    by (auto simp: getCachedKeys_def keys_extractSchemaInfo Let_def split: option.splits if_splits)
qed

text \<open>
  C9. The keys of \<open>extractSchemaInfo\<close> are the keys of the value that validating the
  empty candidate gives, and there are none when that validation gives no value. The
  same holds for what \<open>getCachedKeys\<close> returns, whatever calls came before it: a schema
  object, with its \<open>validate\<close>, stays as it is, so a cached list is the computed one.
\<close>

theorem C9_keys_are_default_keys:
  "keys (extractSchemaInfo sch) = (case std_validate sch [] of Success v \<Rightarrow> map fst v | _ \<Rightarrow> [])
   \<and> (reachable_cache schemas c \<longrightarrow>
        fst (getCachedKeys schemas c r)
          = (case std_validate (schemas r) [] of Success v \<Rightarrow> map fst v | _ \<Rightarrow> []))"
proof -
  have "fst (getCachedKeys schemas c r) = keys (extractSchemaInfo (schemas r))"
    if "reachable_cache schemas c"
  proof (cases "c r")
    case None
    then show ?thesis by (simp add: getCachedKeys_def keys_extractSchemaInfo Let_def)
  next
    case (Some ks)
    then show ?thesis using reachable_cache_holds_keys[OF that Some] by (simp add: getCachedKeys_def)
  qed
  then show ?thesis by (simp add: keys_extractSchemaInfo)
qed

theorem C9_witness:
  "reachable_cache (\<lambda>r. state_schema) (snd (getCachedKeys (\<lambda>r. state_schema) Map.empty 0))
   \<and> fst (getCachedKeys (\<lambda>r. state_schema) (snd (getCachedKeys (\<lambda>r. state_schema) Map.empty 0)) 0)
       = [''state'']
   \<and> keys (extractSchemaInfo async_schema) = [''state'']
   \<and> keys (extractSchemaInfo \<lparr> std_validate = (\<lambda>c. Pending), shape = None \<rparr>) = []"
proof -
  have r: "reachable_cache (\<lambda>r. state_schema) (snd (getCachedKeys (\<lambda>r. state_schema) Map.empty 0))"
    by (rule reachable_cache.call) (rule reachable_cache.initial)
  show ?thesis
    using r C9_keys_are_default_keys[of state_schema "\<lambda>r. state_schema"
        "snd (getCachedKeys (\<lambda>r. state_schema) Map.empty 0)" 0]
      C9_keys_are_default_keys[of async_schema "\<lambda>r. state_schema" Map.empty 0]
    by (simp add: sample_simps get_property_def object_prototype_functions_def extractSchemaInfo_def)
qed

section \<open>\<open>pickCookies\<close>\<close>

lemma map_of_set_property:
  "map_of (set_property obj key v) =
     (if key = ''__proto__'' \<and> map_of obj key = None then map_of obj else (map_of obj)(key \<mapsto> v))"
  by (auto simp: set_property_def update_conv' map_of_eq_None_iff)

lemma map_of_pick_step:
  "key \<noteq> ''__proto__'' \<Longrightarrow>
   map_of (pick_step jar_get JSON_parse opts key picked) k =
     (if k = key \<and> picked_value jar_get JSON_parse opts key \<noteq> None
      then picked_value jar_get JSON_parse opts key else map_of picked k)"
  by (auto simp: pick_step_def picked_value_def map_of_set_property split: option.splits)

lemma map_of_pick_fold:
  "''__proto__'' \<notin> set ks \<Longrightarrow>
   map_of (fold (pick_step jar_get JSON_parse opts) ks picked) k =
     (if k \<in> set ks \<and> picked_value jar_get JSON_parse opts k \<noteq> None
      then picked_value jar_get JSON_parse opts k else map_of picked k)"
proof (induction ks arbitrary: picked)
  case Nil show ?case by simp
next
  case (Cons a ks)
  then have a: "a \<noteq> ''__proto__''" and ks: "''__proto__'' \<notin> set ks" by auto
  show ?case
    using Cons.IH[OF ks, of "pick_step jar_get JSON_parse opts a picked"] map_of_pick_step[OF a, of jar_get JSON_parse opts picked k]
    by auto
qed

text \<open>For a schema without a key named \<open>__proto__\<close>, the own properties of the result
  are the keys of the schema that the jar holds, under their encoded name, with a
  string that parses; each has the parsed value.\<close>

lemma pickCookies_own_properties:
  assumes "''__proto__'' \<notin> set (fst (getCachedKeys schemas c r))"
  shows "map_of (fst (pickCookies jar_get JSON_parse schemas c r opts)) k =
     (if k \<in> set (fst (getCachedKeys schemas c r))
      then (case jar_get (encodedKey k) opts of None \<Rightarrow> None | Some raw \<Rightarrow> JSON_parse raw)
      else None)"
  using map_of_pick_fold[OF assms, of jar_get JSON_parse opts "[]" k]
  by (auto simp: pickCookies_def picked_value_def split: prod.splits option.splits)

text \<open>
  C3 at a schema with a key named \<open>__proto__\<close>, which the jar holds with the valid JSON
  \<open>1\<close>: the assignment \<open>picked[key] = JSON.parse(raw)\<close> reaches the accessor of
  \<open>Object.prototype\<close> and creates no property, so the key is missing from the result.
\<close>

theorem C3_proto_key_is_dropped:
  "fst (getCachedKeys (\<lambda>r. proto_schema) Map.empty 0) = [''__proto__'']
   \<and> encodedKey ''__proto__'' = ''__proto__''
   \<and> sample_parse ''1'' = Some (Num 1)
   \<and> fst (pickCookies (\<lambda>name (u::unit). if name = ''__proto__'' then Some ''1'' else None)
            sample_parse (\<lambda>r. proto_schema) Map.empty 0 ()) = []"
proof -
  have e: "encodedKey ''__proto__'' = ''__proto__''" by code_simp
  show ?thesis
    by (simp add: e pickCookies_def getCachedKeys_def proto_schema_def pick_step_def
        sample_parse_def set_property_def Let_def)
qed

section \<open>The write path\<close>

lemma keys_fold_set_property:
  "set (map fst (fold (\<lambda>key acc. set_property acc key v) ks acc))
     = set (map fst acc) \<union> (set ks - {''__proto__''})"
proof (induction ks arbitrary: acc)
  case Nil show ?case by simp
next
  case (Cons k ks)
  have "set (map fst (set_property acc k v)) = set (map fst acc) \<union> ({k} - {''__proto__''})"
    by (auto simp: set_property_def dom_update)
  then show ?case using Cons[of "set_property acc k v"] by auto
qed

lemma has_new_Cookies:
  "has (new_Cookies sch initial) key
     = (key \<in> set (keys (extractSchemaInfo sch)) \<or> key \<in> set object_prototype_functions
        \<or> key = ''__proto__'')"
  using keys_fold_set_property[of "Bool True" "keys (extractSchemaInfo sch)" "[]"]
  by (auto simp: has_def has_property_def new_Cookies_def Let_def)


lemma setValue_keeps:
  "schema (setValue dq js key v opts st) = schema st"
  "schemaShape (setValue dq js key v opts st) = schemaShape st"
  "encoders (setValue dq js key v opts st) = encoders st"
  by (cases "validate st (newParamsObject st key v)"; simp add: setValue_def)+

lemma setValue_pending:
  "validate st (newParamsObject st key v) = Pending \<Longrightarrow> setValue dq js key v opts st = st"
  by (simp add: setValue_def)


lemma setValue_unknown:
  "\<not> has st key \<Longrightarrow> setValue dq js key v opts st = st"
  by (simp add: setValue_def)









text \<open>
  C4 at a schema that answers with a promise. Reading raises the error of asynchronous
  validation. Writing does not: the promise has no member \<open>value\<close>, and \<open>#setValue\<close>
  returns having changed nothing.
\<close>

theorem C4_write_path_is_silent:
  "get (new_Cookies async_schema [(''state'', Bool True)] :: unit store) ''state''
     = Inl AsyncValidation
   \<and> has (new_Cookies async_schema [(''state'', Bool True)] :: unit store) ''state''
   \<and> validate (new_Cookies async_schema [(''state'', Bool True)] :: unit store)
        (newParamsObject (new_Cookies async_schema [(''state'', Bool True)] :: unit store)
           ''state'' (Bool False)) = Pending
   \<and> setValue sample_dequal sample_stringify ''state'' (Bool False) None
        (new_Cookies async_schema [(''state'', Bool True)] :: unit store)
     = new_Cookies async_schema [(''state'', Bool True)]"
  by (simp add: store_simps sample_simps get_def getTypedValue_def)


text \<open>For every name that is neither a key of the schema nor a property of
  \<open>Object.prototype\<close>, \<open>has\<close> is false and a write is a no-op.\<close>

lemma unknown_key_is_noop:
  assumes "key \<notin> set (keys (extractSchemaInfo sch))"
    and "key \<notin> set object_prototype_functions" and "key \<noteq> ''__proto__''"
  shows "\<not> has (new_Cookies sch initial) key
     \<and> setValue dq js key v opts (new_Cookies sch initial) = new_Cookies sch initial"
  using assms by (simp add: has_new_Cookies setValue_unknown)

section \<open>The facade\<close>

text \<open>
  C10. For a schema with a key named \<open>update\<close>, reading the property \<open>update\<close> of the
  facade gives the function that forwards to the store's \<open>update\<close>, never the cached
  value (the test for the reserved name comes first), while assigning to the property
  calls the store's \<open>set\<close> for the key \<open>update\<close>.
\<close>

theorem C10_update_is_reserved:
  fixes target :: "'o store"
  assumes "''update'' \<in> set (keys (extractSchemaInfo sch))"
    and "target = useCookies sch initial"
  shows "handler_get dq js target (PString ''update'')
           = UpdateFunction (\<lambda>key val options. update dq js key val options target)
     \<and> handler_get dq js target (PString ''update'') \<noteq> Got (get target ''update'')
     \<and> handler_set dq js target (PString ''update'') v
           = SetCalled (set_cookie dq js ''update'' v target)"
  using assms by (simp add: handler_get_def handler_set_def useCookies_def has_new_Cookies)

theorem C10_witness:
  "handler_get sample_dequal sample_stringify (useCookies update_schema [] :: unit store)
       (PString ''update'')
     = UpdateFunction (\<lambda>key val options.
         update sample_dequal sample_stringify key val options (useCookies update_schema []))
   \<and> handler_set sample_dequal sample_stringify (useCookies update_schema [] :: unit store)
       (PString ''update'') (Bool True)
     = SetCalled ((useCookies update_schema [])
         \<lparr> jar := [(''update'', sample_stringify (Bool True), None)],
           cookies := [(''update'', Bool True)],
           assignments := 1 \<rparr>)"
proof -
  have k: "''update'' \<in> set (keys (extractSchemaInfo update_schema))"
    by (simp add: store_simps sample_simps)
  have e: "set_cookie sample_dequal sample_stringify ''update'' (Bool True)
             (useCookies update_schema [] :: unit store)
           = (useCookies update_schema [])
               \<lparr> jar := [(''update'', sample_stringify (Bool True), None)],
                 cookies := [(''update'', Bool True)],
                 assignments := 1 \<rparr>"
    by (simp add: store_simps sample_simps useCookies_def)
  show ?thesis
    using C10_update_is_reserved[OF k refl, where 'o = unit and initial = "[]"
        and dq = sample_dequal and js = sample_stringify and v = "Bool True"]
    by (simp add: e)
qed

end
